theory Spec2Isabelle
  imports Main "HOL-Library.Multiset" "HOL-Library.Monad_Syntax"
begin

section \<open>Strings\<close>

text \<open>
  JavaScript strings are modelled as \<open>string\<close>; the handlers only compare, concatenate,
  split off prefixes and iterate them, and none of that depends on the alphabet.
\<close>

definition startsWith :: "string \<Rightarrow> string \<Rightarrow> bool" where
  \<comment> \<open>\<open>s.startsWith(pre)\<close>\<close>
  "startsWith s pre = (take (length pre) s = pre)"

fun replace :: "string \<Rightarrow> string \<Rightarrow> string \<Rightarrow> string" where
  \<comment> \<open>\<open>s.replace(pat, rep)\<close> with a string pattern: only the first occurrence of \<open>pat\<close>
      is replaced. The replacement strings used by the handlers hold no \<open>$\<close>.\<close>
  "replace [] pat rep = (if pat = [] then rep else [])"
| "replace (c # cs) pat rep =
     (if startsWith (c # cs) pat then rep @ drop (length pat) (c # cs)
      else c # replace cs pat rep)"

fun join :: "string list \<Rightarrow> string \<Rightarrow> string" where
  \<comment> \<open>\<open>xs.join(sep)\<close> on an array of strings\<close>
  "join [] sep = []"
| "join [x] sep = x"
| "join (x # y # ys) sep = x @ sep @ join (y # ys) sep"

definition digit :: "nat \<Rightarrow> char" where
  \<comment> \<open>for \<open>d < 10\<close>\<close>
  "digit d = ''0123456789'' ! d"

function show_nat :: "nat \<Rightarrow> string" where
  \<comment> \<open>a length or a counter interpolated into a template literal\<close>
  "show_nat n = (if n < 10 then [digit n] else show_nat (n div 10) @ [digit (n mod 10)])"
  by pat_completeness auto
termination
  by (relation "measure id") auto

declare show_nat.simps [simp del]

section \<open>Requests and responses\<close>

text \<open>
  A query parameter or a header of a Next.js request is \<open>string | string[] | undefined\<close>.
\<close>

datatype param = Absent | One string | Many "string list"

fun param_truthy :: "param \<Rightarrow> bool" where
  \<comment> \<open>truthiness as \<open>if (x)\<close> and \<open>x || y\<close> see it: \<open>undefined\<close> and the empty string are falsy,
      every array is truthy\<close>
  "param_truthy Absent = False"
| "param_truthy (One s) = (s \<noteq> [])"
| "param_truthy (Many xs) = True"

fun as_array :: "param \<Rightarrow> string list" where
  \<comment> \<open>\<open>Array.isArray(x) ? x : [x]\<close>, used on a truthy parameter only\<close>
  "as_array Absent = []"
| "as_array (One s) = [s]"
| "as_array (Many xs) = xs"

text \<open>
  A value of a JSON request body. A number is kept as the decimal text that \<open>String(n)\<close>
  yields for it: the handlers never compute with a number of the body, they only test its
  truthiness and interpolate it into a string.
\<close>

datatype jsval =
    Undefined
  | Null
  | JBool bool
  | JNum string
  | JStr string
  | JArr "jsval list"
  | JObj "(string \<times> jsval) list"

record request =
  http_method :: string  \<comment> \<open>\<open>req.method\<close>\<close>
  query :: "string \<Rightarrow> param"
  headers :: "string \<Rightarrow> param"
  body :: jsval

datatype 'b response = Response (status: nat) (json: 'b)

section \<open>/api/revalidate\<close>

datatype revalidate_body =
    RvError string
  | Revalidated (revalidated: bool) (now: int) (message: string)

text \<open>
  What the handler reads from outside: the environment variable, the framework's
  \<open>res.revalidate\<close> (\<open>True\<close> when the promise resolves, \<open>False\<close> when it rejects) and the clock.
  The outside world is a state \<open>'w\<close> threaded through the calls, so that two calls on the same
  path may end differently.
\<close>

record 'w revalidate_env =
  REVALIDATE_SECRET :: "string option"
  res_revalidate :: "string \<Rightarrow> 'w \<Rightarrow> bool \<times> 'w"
  Date_now :: "'w \<Rightarrow> int"

definition env_truthy :: "string option \<Rightarrow> bool" where
  \<comment> \<open>\<open>if (process.env.X)\<close>: unset and empty are both falsy\<close>
  "env_truthy v = (case v of None \<Rightarrow> False | Some s \<Rightarrow> s \<noteq> [])"

definition secret_rejected :: "'w revalidate_env \<Rightarrow> request \<Rightarrow> bool" where
  "secret_rejected env req =
     (if env_truthy (REVALIDATE_SECRET env) then
        (let secret = (if param_truthy (query req ''secret'') then query req ''secret''
                       else headers req ''x-revalidate-secret'')
         in secret \<noteq> One (the (REVALIDATE_SECRET env)))
      else False)"

fun revalidate_each ::
  "(string \<Rightarrow> 'w \<Rightarrow> bool \<times> 'w) \<Rightarrow> string list \<Rightarrow> string list \<Rightarrow> 'w \<Rightarrow> string list \<times> 'w" where
  \<comment> \<open>the loop \<open>for (const p of paths) { try { await res.revalidate(p); revalidatedPaths.push(p) }
      catch { ... } }\<close>\<close>
  "revalidate_each rv [] revalidatedPaths w = (revalidatedPaths, w)"
| "revalidate_each rv (p # ps) revalidatedPaths w =
     (case rv p w of
        (True, w') \<Rightarrow> revalidate_each rv ps (revalidatedPaths @ [p]) w'
      | (False, w') \<Rightarrow> revalidate_each rv ps revalidatedPaths w')"

definition tag_paths :: "string \<Rightarrow> string list" where
  \<comment> \<open>the body of the loop over the tags: the paths one tag pushes\<close>
  "tag_paths t =
     (if startsWith t ''product:'' then [''/p/'' @ replace t ''product:'' '''']
      else if startsWith t ''category:'' then [''/'' @ replace t ''category:'' '''']
      else [])"

definition tags_to_paths :: "string list \<Rightarrow> string list" where
  "tags_to_paths tags = concat (map tag_paths tags)"

definition handler_revalidate ::
  "'w revalidate_env \<Rightarrow> request \<Rightarrow> 'w \<Rightarrow> revalidate_body response \<times> 'w" where
  \<comment> \<open>every \<open>res.revalidate\<close> has its own \<open>try\<close>, and nothing else in the outer \<open>try\<close> throws, so
      the 500 of its \<open>catch\<close> is not a branch here\<close>
  "handler_revalidate env req w =
     (if secret_rejected env req then (Response 401 (RvError ''Invalid secret token''), w)
      else
        let tag = query req ''tag''; pathToRevalidate = query req ''path'' in
        if param_truthy pathToRevalidate then
          (let paths = as_array pathToRevalidate;
               (revalidatedPaths, w') = revalidate_each (res_revalidate env) paths [] w
           in (Response 200 (Revalidated True (Date_now env w')
                 (''Revalidated '' @ show_nat (length revalidatedPaths) @ '' paths: ''
                    @ join revalidatedPaths '', '')), w'))
        else if param_truthy tag then
          (let tags = as_array tag;
               paths = tags_to_paths tags;
               (revalidatedPaths, w') = revalidate_each (res_revalidate env) paths [] w
           in (Response 200 (Revalidated True (Date_now env w')
                 (''Revalidated '' @ show_nat (length revalidatedPaths) @ '' paths from tags: ''
                    @ join tags '', '')), w'))
        else (Response 400 (RvError ''Missing tag or path parameter''), w))"

section \<open>Values of a request body\<close>

fun js_truthy :: "jsval \<Rightarrow> bool" where
  "js_truthy Undefined = False"
| "js_truthy Null = False"
| "js_truthy (JBool b) = b"
| "js_truthy (JNum r) = (r \<noteq> ''0'' \<and> r \<noteq> ''NaN'')"
| "js_truthy (JStr s) = (s \<noteq> [])"
| "js_truthy (JArr xs) = True"
| "js_truthy (JObj kvs) = True"

fun opt_get :: "jsval \<Rightarrow> string \<Rightarrow> jsval" where
  \<comment> \<open>\<open>v?.k\<close> for the keys the handlers read (\<open>entity\<close>, \<open>action\<close>, \<open>data\<close>, \<open>url_key\<close>,
      \<open>sku\<close>, \<open>url_path\<close>, \<open>uid\<close>, \<open>identifier\<close>, \<open>locales\<close>), none of which is inherited from a
      prototype. \<open>JSON.parse\<close> keeps the last of several bindings of a key.\<close>
  "opt_get (JObj kvs) k = (case map_of (rev kvs) k of None \<Rightarrow> Undefined | Some v \<Rightarrow> v)"
| "opt_get v k = Undefined"

fun ToString :: "jsval \<Rightarrow> string option"
  and join_elements :: "jsval list \<Rightarrow> string option" where
  \<comment> \<open>\<open>`${v}`\<close>; \<open>None\<close> is the TypeError thrown for an object whose own \<open>toString\<close> (a JSON
      value, so not callable) hides \<open>Object.prototype.toString\<close>\<close>
  "ToString Undefined = Some ''undefined''"
| "ToString Null = Some ''null''"
| "ToString (JBool b) = Some (if b then ''true'' else ''false'')"
| "ToString (JNum r) = Some r"
| "ToString (JStr s) = Some s"
| "ToString (JArr xs) = join_elements xs"
| "ToString (JObj kvs) =
     (if map_of kvs ''toString'' = None then Some ''[object Object]'' else None)"
| "join_elements [] = Some []"
| "join_elements (x # xs) =
     (case (if x = Undefined \<or> x = Null then Some [] else ToString x) of
        None \<Rightarrow> None
      | Some s \<Rightarrow>
          (if xs = [] then Some s
           else (case join_elements xs of None \<Rightarrow> None | Some r \<Rightarrow> Some (s @ '','' @ r))))"

section \<open>Outbound calls to /api/revalidate\<close>

text \<open>
  How one \<open>fetch\<close> of \<open>${baseUrl}/api/revalidate?path=...\<close> ends: a response with \<open>ok\<close>, a
  response without \<open>ok\<close> whose text is read, or an error thrown by \<open>fetch\<close> or by
  \<open>response.text()\<close>, with the message \<open>error instanceof Error ? error.message : String(error)\<close>.
\<close>

datatype fetch_result = RespOk | RespNotOk string | FetchThrew string

section \<open>/api/webhook/magento\<close>

datatype webhook_body =
    WhError string
  | WhSuccess (wh_success: bool) (wh_message: string)

record 'w webhook_env =
  NEXT_PUBLIC_SITE_URL :: "string option"
  VERCEL_URL :: "string option"
  wh_fetch :: "string \<Rightarrow> string \<Rightarrow> 'w \<Rightarrow> fetch_result \<times> 'w"
    \<comment> \<open>base URL, path\<close>

definition product_step :: "jsval \<Rightarrow> string list \<Rightarrow> string list option" where
  "product_step data paths = do {
     paths1 \<leftarrow> (if js_truthy (opt_get data ''url_key'')
                then do { u \<leftarrow> ToString (opt_get data ''url_key''); Some (paths @ [''/p/'' @ u]) }
                else Some paths);
     _ \<leftarrow> (if \<not> js_truthy (opt_get data ''url_key'') \<and> js_truthy (opt_get data ''sku'')
           then ToString (opt_get data ''sku'') else Some []);
     Some paths1 }"

definition category_step :: "jsval \<Rightarrow> string list \<Rightarrow> string list option" where
  \<comment> \<open>\<open>data.url_path.startsWith\<close> is a function only when \<open>url_path\<close> is a string\<close>
  "category_step data paths = do {
     paths1 \<leftarrow> (if js_truthy (opt_get data ''url_path'')
                then (case opt_get data ''url_path'' of
                        JStr s \<Rightarrow> Some (paths @ [if startsWith s ''/'' then s else ''/'' @ s])
                      | _ \<Rightarrow> None)
                else Some paths);
     _ \<leftarrow> (if \<not> js_truthy (opt_get data ''url_path'') \<and> js_truthy (opt_get data ''uid'')
           then ToString (opt_get data ''uid'') else Some []);
     Some paths1 }"

definition page_step :: "jsval \<Rightarrow> string list \<Rightarrow> string list option" where
  "page_step data paths =
     (if js_truthy (opt_get data ''identifier'')
      then do { i \<leftarrow> ToString (opt_get data ''identifier''); Some (paths @ [''/'' @ i]) }
      else Some paths)"

definition webhook_paths :: "jsval \<Rightarrow> jsval \<Rightarrow> string list option" where
  \<comment> \<open>the translator: the paths pushed for \<open>entity\<close> and \<open>data\<close>; \<open>None\<close> when a TypeError is
      thrown on the way\<close>
  "webhook_paths entity data = do {
     paths1 \<leftarrow> (if entity = JStr ''product'' then product_step data [] else Some []);
     paths2 \<leftarrow> (if entity = JStr ''category'' then category_step data paths1 else Some paths1);
     (if entity = JStr ''page'' \<or> entity = JStr ''cms_page'' then page_step data paths2
      else Some paths2) }"

fun fetch_each ::
  "(string \<Rightarrow> 'w \<Rightarrow> fetch_result \<times> 'w) \<Rightarrow> string list \<Rightarrow> string list \<Rightarrow> 'w \<Rightarrow> string list \<times> 'w" where
  "fetch_each f [] revalidatedPaths w = (revalidatedPaths, w)"
| "fetch_each f (path # ps) revalidatedPaths w =
     (case f path w of
        (RespOk, w') \<Rightarrow> fetch_each f ps (revalidatedPaths @ [path]) w'
      | (_, w') \<Rightarrow> fetch_each f ps revalidatedPaths w')"

definition wh_baseUrl :: "'w webhook_env \<Rightarrow> string" where
  "wh_baseUrl env =
     (if env_truthy (NEXT_PUBLIC_SITE_URL env) then the (NEXT_PUBLIC_SITE_URL env)
      else if env_truthy (VERCEL_URL env) then the (VERCEL_URL env)
      else ''http://localhost:3000'')"

text \<open>The handler returns its response, the paths it fetched, in order, and the world.\<close>

definition handler_webhook ::
  "'w webhook_env \<Rightarrow> request \<Rightarrow> 'w \<Rightarrow> webhook_body response \<times> string list \<times> 'w" where
  "handler_webhook env req w =
     (if http_method req \<noteq> ''POST'' then (Response 405 (WhError ''Method not allowed''), [], w)
      else if body req = Undefined \<or> body req = Null
      then (Response 500 (WhError ''Internal server error''), [], w)
      else
        let entity = opt_get (body req) ''entity'';
            action = opt_get (body req) ''action'';
            data = opt_get (body req) ''data''
        in
        if \<not> (js_truthy entity \<and> js_truthy action)
        then (Response 400 (WhError ''Missing entity or action''), [], w)
        else
          (case webhook_paths entity data of
             None \<Rightarrow> (Response 500 (WhError ''Internal server error''), [], w)
           | Some paths \<Rightarrow>
               if length paths = 0
               then (Response 400 (WhError ''Unknown entity type or missing path data''), [], w)
               else
                 (let (revalidatedPaths, w') = fetch_each (wh_fetch env (wh_baseUrl env)) paths [] w
                  in (case (ToString entity, ToString action) of
                        (Some e, Some a) \<Rightarrow>
                          (Response 200 (WhSuccess True
                             (''Revalidated '' @ show_nat (length revalidatedPaths) @ '' paths'')),
                           paths, w')
                      | _ \<Rightarrow> (Response 500 (WhError ''Internal server error''), paths, w')))))"

section \<open>/api/revalidate-all\<close>

datatype revalidate_all_body =
    RaError string
  | RaSuccess (success: bool) (ra_message: string) (products: nat) (categories: nat)
      (total: nat) (errors_shown: "string list option")

text \<open>
  What happens on the outbound side, in the order it happens: a \<open>fetch\<close> is issued for a
  path, an issued call settles with its result, and \<open>await Promise.all\<close> resumes the loop.
\<close>

datatype event = Dispatched string | Settled string fetch_result | AllSettled

text \<open>
  The collaborators. \<open>getProductPaths\<close> stands for \<open>graphqlSsrClient\<close>, \<open>getProductStaticPaths\<close>,
  \<open>staticPathsToString\<close> and \<open>productPath\<close> on one locale, \<open>getCategoryPaths\<close> for
  \<open>getCategoryStaticPaths\<close>, \<open>staticPathsToString\<close> and \<open>productListLink\<close>: each gives the
  strings before the handler's own check of the leading slash, or the message of the error
  thrown. \<open>settle_next\<close> is the network and the event loop: of the calls in flight it says
  which one settles next (an index, taken modulo their number) and how.
\<close>

record 'w revalidate_all_env =
  getProductPaths :: "jsval \<Rightarrow> 'w \<Rightarrow> (string + string list) \<times> 'w"
  getCategoryPaths :: "jsval \<Rightarrow> 'w \<Rightarrow> (string + string list) \<times> 'w"
  settle_next :: "string list \<Rightarrow> 'w \<Rightarrow> (nat \<times> fetch_result) \<times> 'w"

definition request_locales :: "jsval \<Rightarrow> jsval list option" where
  \<comment> \<open>\<open>req.body?.locales || ['tr']\<close> as \<open>for (const locale of locales)\<close> iterates it: the
      elements of an array, the characters of a string; \<open>None\<close> when it is not iterable\<close>
  "request_locales b =
     (let locales = opt_get b ''locales'' in
      if js_truthy locales then
        (case locales of
           JArr xs \<Rightarrow> Some xs
         | JStr s \<Rightarrow> Some (map (\<lambda>c. JStr [c]) s)
         | _ \<Rightarrow> None)
      else Some [JStr ''tr''])"

definition ensure_slash :: "string \<Rightarrow> string" where
  "ensure_slash p = (if startsWith p ''/'' then p else ''/'' @ p)"

definition fetch_locale ::
  "'w revalidate_all_env \<Rightarrow> jsval \<Rightarrow> 'w \<Rightarrow> (string + string list) \<times> 'w" where
  "fetch_locale env locale w =
     (case getProductPaths env locale w of
        (Inl msg, w1) \<Rightarrow> (Inl msg, w1)
      | (Inr productPaths, w1) \<Rightarrow>
          (case getCategoryPaths env locale w1 of
             (Inl msg, w2) \<Rightarrow> (Inl msg, w2)
           | (Inr categoryPaths, w2) \<Rightarrow>
               (Inr (map ensure_slash productPaths @ map ensure_slash categoryPaths), w2)))"

fun collect_paths ::
  "'w revalidate_all_env \<Rightarrow> jsval list \<Rightarrow> string list \<Rightarrow> string list \<Rightarrow> 'w
     \<Rightarrow> (string list \<times> string list) option \<times> 'w" where
  \<comment> \<open>the loop over the locales, giving \<open>allPaths\<close> and \<open>errors\<close>. The log line of the \<open>try\<close>
      block and the message built in its \<open>catch\<close> block both interpolate \<open>locale\<close>: when that
      throws, the error leaves the loop (\<open>None\<close>).\<close>
  "collect_paths env [] allPaths errors w = (Some (allPaths, errors), w)"
| "collect_paths env (locale # ls) allPaths errors w =
     (case fetch_locale env locale w of
        (r, w') \<Rightarrow>
          (case ToString locale of
             None \<Rightarrow> (None, w')
           | Some l \<Rightarrow>
               (case r of
                  Inr ps \<Rightarrow> collect_paths env ls (allPaths @ ps) errors w'
                | Inl msg \<Rightarrow>
                    collect_paths env ls allPaths
                      (errors @ [''Error fetching paths for locale '' @ l @ '': '' @ msg]) w')))"

fun new_Set :: "'a list \<Rightarrow> 'a list \<Rightarrow> 'a list" where
  \<comment> \<open>\<open>[...new Set(xs)]\<close>: a Set keeps insertion order, so the first occurrence of each
      element stays; the first argument is the set built so far\<close>
  "new_Set seen [] = seen"
| "new_Set seen (x # xs) = new_Set (if x \<in> set seen then seen else seen @ [x]) xs"

definition slice :: "'a list \<Rightarrow> nat \<Rightarrow> nat \<Rightarrow> 'a list" where
  \<comment> \<open>\<open>xs.slice(i, j)\<close> for \<open>0 \<le> i \<le> j\<close>\<close>
  "slice xs i j = take (j - i) (drop i xs)"

definition batchSize :: nat where
  "batchSize = 10"

record 'w batch_state =
  world :: 'w
  revalidatedCount :: nat
  errors :: "string list"

fun settle :: "string \<Rightarrow> fetch_result \<Rightarrow> 'w batch_state \<Rightarrow> 'w batch_state" where
  \<comment> \<open>what the callback of one path does once its call has settled\<close>
  "settle path RespOk st = st\<lparr>revalidatedCount := revalidatedCount st + 1\<rparr>"
| "settle path (RespNotOk errorText) st =
     st\<lparr>errors := errors st @ [''Failed to revalidate '' @ path @ '': '' @ errorText]\<rparr>"
| "settle path (FetchThrew msg) st =
     st\<lparr>errors := errors st @ [''Error revalidating '' @ path @ '': '' @ msg]\<rparr>"

function settle_all ::
  "'w revalidate_all_env \<Rightarrow> string list \<Rightarrow> 'w batch_state \<Rightarrow> event list \<times> 'w batch_state" where
  \<comment> \<open>\<open>await Promise.all(...)\<close>: the calls in flight settle one by one, in the order the
      outside chooses, until none is left\<close>
  "settle_all env pending st =
     (if pending = [] then ([], st)
      else
        (case settle_next env pending (world st) of
           ((i, r), w') \<Rightarrow>
             (let k = i mod length pending;
                  path = pending ! k;
                  (evs, st') = settle_all env (take k pending @ drop (Suc k) pending)
                                 (settle path r (st\<lparr>world := w'\<rparr>))
              in (Settled path r # evs, st'))))"
  by pat_completeness auto
termination
proof (relation "measure (\<lambda>(env, pending, st). length pending)", goal_cases)
  case 1
  show ?case by simp
next
  case (2 env pending st x w' i r k)
  from \<open>pending \<noteq> []\<close> have "i mod length pending < length pending"
    by simp
  with \<open>k = i mod length pending\<close> show ?case
    by simp
qed

declare settle_all.simps [simp del]

definition run_wave ::
  "'w revalidate_all_env \<Rightarrow> string list \<Rightarrow> 'w batch_state \<Rightarrow> event list \<times> 'w batch_state" where
  \<comment> \<open>one turn of the loop: \<open>batch.map\<close> runs every callback up to its \<open>fetch\<close>, in order, then
      all of them are awaited\<close>
  "run_wave env batch st =
     (case settle_all env batch st of
        (evs, st') \<Rightarrow> (map Dispatched batch @ evs @ [AllSettled], st'))"

function revalidate_batches ::
  "'w revalidate_all_env \<Rightarrow> string list \<Rightarrow> nat \<Rightarrow> 'w batch_state \<Rightarrow> event list \<times> 'w batch_state" where
  \<comment> \<open>\<open>for (let i = 0; i < uniquePaths.length; i += batchSize)\<close>, from \<open>i\<close> on\<close>
  "revalidate_batches env uniquePaths i st =
     (if i < length uniquePaths then
        (case run_wave env (slice uniquePaths i (i + batchSize)) st of
           (evs, st1) \<Rightarrow>
             (case revalidate_batches env uniquePaths (i + batchSize) st1 of
                (evs', st2) \<Rightarrow> (evs @ evs', st2)))
      else ([], st))"
  by pat_completeness auto
termination
  by (relation "measure (\<lambda>(env, uniquePaths, i, st). length uniquePaths - i)")
    (auto simp: batchSize_def)

declare revalidate_batches.simps [simp del]

definition orchestrate ::
  "'w revalidate_all_env \<Rightarrow> string list \<Rightarrow> string list \<Rightarrow> 'w
     \<Rightarrow> revalidate_all_body response \<times> event list \<times> 'w" where
  \<comment> \<open>the second half of the handler, from \<open>const uniquePaths = [...new Set(allPaths)]\<close> to
      \<open>res.json(...)\<close>: it starts from \<open>allPaths\<close> and the \<open>errors\<close> the locales left. Nothing in
      it throws outside the \<open>try\<close> of a callback.\<close>
  "orchestrate env allPaths errors0 w =
     (let uniquePaths = new_Set [] allPaths;
          (evs, st) = revalidate_batches env uniquePaths 0
                        \<lparr>world = w, revalidatedCount = 0, errors = errors0\<rparr>;
          productCount = length (filter (\<lambda>p. startsWith p ''/p/'') uniquePaths);
          categoryCount =
            length (filter (\<lambda>p. \<not> startsWith p ''/p/'' \<and> p \<noteq> ''/'') uniquePaths)
      in (Response 200
            (RaSuccess True
               (''Revalidated '' @ show_nat (revalidatedCount st) @ '' out of ''
                  @ show_nat (length uniquePaths) @ '' paths'')
               productCount categoryCount (revalidatedCount st)
               (if length (errors st) > 0 then Some (take 10 (errors st)) else None)),
          evs, world st))"

definition handler_revalidate_all ::
  "'w revalidate_all_env \<Rightarrow> request \<Rightarrow> 'w \<Rightarrow> revalidate_all_body response \<times> event list \<times> 'w" where
  "handler_revalidate_all env req w =
     (if http_method req \<noteq> ''GET'' \<and> http_method req \<noteq> ''POST''
      then (Response 405 (RaError ''Method not allowed''), [], w)
      else
        (case request_locales (body req) of
           None \<Rightarrow>
             (Response 500 (RaError ''Internal server error: locales is not iterable''), [], w)
         | Some locales \<Rightarrow>
             (case collect_paths env locales [] [] w of
                (None, w') \<Rightarrow>
                  (Response 500
                     (RaError ''Internal server error: Cannot convert object to primitive value''),
                   [], w')
              | (Some (allPaths, errors0), w') \<Rightarrow> orchestrate env allPaths errors0 w')))"

text \<open>Reading a trace.\<close>

fun dispatched :: "event list \<Rightarrow> string list" where
  "dispatched [] = []"
| "dispatched (Dispatched p # evs) = p # dispatched evs"
| "dispatched (e # evs) = dispatched evs"

fun settled :: "event list \<Rightarrow> (string \<times> fetch_result) list" where
  "settled [] = []"
| "settled (Settled p r # evs) = (p, r) # settled evs"
| "settled (e # evs) = settled evs"

definition failures :: "event list \<Rightarrow> (string \<times> fetch_result) list" where
  "failures evs = filter (\<lambda>(p, r). r \<noteq> RespOk) (settled evs)"

fun error_message :: "string \<times> fetch_result \<Rightarrow> string list" where
  "error_message (path, RespOk) = []"
| "error_message (path, RespNotOk errorText) =
     [''Failed to revalidate '' @ path @ '': '' @ errorText]"
| "error_message (path, FetchThrew msg) = [''Error revalidating '' @ path @ '': '' @ msg]"

definition settled_event :: "string \<times> fetch_result \<Rightarrow> event" where
  "settled_event s = Settled (fst s) (snd s)"

definition ok_count :: "(string \<times> fetch_result) list \<Rightarrow> nat" where
  "ok_count ss = length (filter (\<lambda>s. snd s = RespOk) ss)"


section \<open>Concrete requests and collaborators\<close>

text \<open>
  Stubs for the outside, used where a statement is run on a concrete request: a request built
  from its parts, a \<open>res.revalidate\<close> that always resolves or always rejects, a \<open>fetch\<close> with a
  fixed result, and for /api/revalidate-all a path enumerator given as a function of the
  locale, with a network in which the call issued last settles first.
\<close>

definition request_of :: "string \<Rightarrow> (string \<times> param) list \<Rightarrow> (string \<times> param) list \<Rightarrow> jsval \<Rightarrow> request" where
  "request_of m q h b =
     \<lparr>http_method = m,
      query = (\<lambda>k. case map_of q k of None \<Rightarrow> Absent | Some v \<Rightarrow> v),
      headers = (\<lambda>k. case map_of h k of None \<Rightarrow> Absent | Some v \<Rightarrow> v),
      body = b\<rparr>"

definition rv_env :: "string option \<Rightarrow> bool \<Rightarrow> unit revalidate_env" where
  "rv_env secret ok = \<lparr>REVALIDATE_SECRET = secret, res_revalidate = (\<lambda>p w. (ok, w)), Date_now = (\<lambda>w. 0)\<rparr>"

definition wh_env :: "fetch_result \<Rightarrow> unit webhook_env" where
  "wh_env r = \<lparr>NEXT_PUBLIC_SITE_URL = None, VERCEL_URL = None, wh_fetch = (\<lambda>base path w. (r, w))\<rparr>"

definition stub_env ::
  "(jsval \<Rightarrow> string + string list) \<Rightarrow> (string \<Rightarrow> fetch_result) \<Rightarrow> nat revalidate_all_env" where
  "stub_env paths_of outcome =
     \<lparr>getProductPaths = (\<lambda>locale w. (paths_of locale, w)),
      getCategoryPaths = (\<lambda>locale w. (Inr [], w)),
      settle_next = (\<lambda>pending w. ((length pending - 1, outcome (last pending)), Suc w))\<rparr>"

definition fails_on :: "string \<Rightarrow> string \<Rightarrow> fetch_result" where
  "fails_on bad path = (if path = bad then RespNotOk ''boom'' else RespOk)"

definition only_tr :: "jsval \<Rightarrow> string + string list" where
  "only_tr locale = (if locale = JStr ''tr'' then Inr [''/p/a'', ''/p/b''] else Inl ''no such store'')"

definition two_products :: "jsval \<Rightarrow> string + string list" where
  \<comment> \<open>one path comes without its leading slash, one twice\<close>
  "two_products locale = Inr [''/p/a'', ''p/b'', ''/p/a'']"

definition eleven_locales :: jsval where
  "eleven_locales =
     JObj [(''locales'', JArr [JStr ''l0'', JStr ''l1'', JStr ''l2'', JStr ''l3'', JStr ''l4'',
             JStr ''l5'', JStr ''l6'', JStr ''l7'', JStr ''l8'', JStr ''l9'', JStr ''tr''])]"

definition eleven_and_a_duplicate :: "string list" where
  "eleven_and_a_duplicate =
     [''/a'', ''/b'', ''/c'', ''/d'', ''/e'', ''/f'', ''/g'', ''/h'', ''/i'', ''/j'', ''/a'', ''/k'']"

section \<open>Properties of /api/revalidate\<close>

lemma show_nat_small: "n < 10 \<Longrightarrow> show_nat n = [digit n]"
  by (simp add: show_nat.simps)

text \<open>
  C3: for every string X the tag \<open>product:X\<close> is translated to exactly the one path \<open>/p/X\<close>,
  and the tag \<open>category:X\<close> to exactly the one path \<open>/X\<close>; so are they when the request
  carries that tag alone.
\<close>

theorem tag_translation_exact:
  "tag_paths (''product:'' @ X) = [''/p/'' @ X] \<and>
   tag_paths (''category:'' @ X) = [''/'' @ X] \<and>
   tags_to_paths (as_array (One (''product:'' @ X))) = [''/p/'' @ X] \<and>
   tags_to_paths (as_array (One (''category:'' @ X))) = [''/'' @ X]"
  by (simp add: tag_paths_def tags_to_paths_def startsWith_def)

text \<open>
  C4, amended: when \<open>REVALIDATE_SECRET\<close> is set to a non-empty value and the request has
  neither the \<open>secret\<close> query parameter nor the \<open>x-revalidate-secret\<close> header, the handler
  answers 401 with the error body, whatever the other parameters are, and calls nothing.
\<close>

theorem secret_required:
  assumes "REVALIDATE_SECRET env = Some s" and "s \<noteq> []"
    and "query req ''secret'' = Absent" and "headers req ''x-revalidate-secret'' = Absent"
  shows "handler_revalidate env req w = (Response 401 (RvError ''Invalid secret token''), w)"
  using assms by (simp add: handler_revalidate_def secret_rejected_def env_truthy_def)

text \<open>The same at a request that carries both a path and a tag.\<close>

theorem secret_required_witness:
  "handler_revalidate (rv_env (Some ''s3cret'') True)
     (request_of ''GET'' [(''path'', One ''/x''), (''tag'', One ''product:a'')] [] Undefined) ()
   = (Response 401 (RvError ''Invalid secret token''), ())"
  using secret_required [of "rv_env (Some ''s3cret'') True" "''s3cret''"
      "request_of ''GET'' [(''path'', One ''/x''), (''tag'', One ''product:a'')] [] Undefined" "()"]
  by (simp add: rv_env_def request_of_def)

text \<open>
  C4 as it is written fails when the variable is set to the empty string: \<open>if
  (process.env.REVALIDATE_SECRET)\<close> is then false, the check is skipped and the request
  without any secret is served.
\<close>

theorem empty_secret_counterexample:
  "REVALIDATE_SECRET (rv_env (Some '''') True) = Some '''' \<and>
   query (request_of ''GET'' [(''path'', One ''/x'')] [] Undefined) ''secret'' = Absent \<and>
   headers (request_of ''GET'' [(''path'', One ''/x'')] [] Undefined) ''x-revalidate-secret'' = Absent \<and>
   handler_revalidate (rv_env (Some '''') True) (request_of ''GET'' [(''path'', One ''/x'')] [] Undefined) ()
     = (Response 200 (Revalidated True 0 ''Revalidated 1 paths: /x''), ())"
  by (simp add: rv_env_def request_of_def handler_revalidate_def secret_rejected_def env_truthy_def
      show_nat_small digit_def)

text \<open>
  C10, amended: when the request passes the secret check and its \<open>path\<close> or its \<open>tag\<close>
  parameter is truthy (a non-empty string, or a repeated parameter), the answer is 200 with
  \<open>revalidated: true\<close>, whatever the calls of \<open>res.revalidate\<close> do.
\<close>

theorem truthy_parameter_revalidated:
  assumes "\<not> secret_rejected env req"
    and "param_truthy (query req ''path'') \<or> param_truthy (query req ''tag'')"
  shows "\<exists>n msg w'. handler_revalidate env req w = (Response 200 (Revalidated True n msg), w')"
  using assms
  by (auto simp: handler_revalidate_def Let_def split: prod.splits)

text \<open>With a \<open>res.revalidate\<close> that rejects every path the body still says \<open>revalidated: true\<close>.\<close>

theorem truthy_parameter_revalidated_witness:
  "\<exists>n msg w'. handler_revalidate (rv_env None False)
      (request_of ''GET'' [(''path'', Many [''/a'', ''/b''])] [] Undefined) ()
    = (Response 200 (Revalidated True n msg), w')"
  using truthy_parameter_revalidated [of "rv_env None False"
      "request_of ''GET'' [(''path'', Many [''/a'', ''/b''])] [] Undefined" "()"]
  by (simp add: rv_env_def request_of_def secret_rejected_def env_truthy_def)

theorem all_failed_still_revalidated:
  "handler_revalidate (rv_env None False)
      (request_of ''GET'' [(''path'', Many [''/a'', ''/b''])] [] Undefined) ()
    = (Response 200 (Revalidated True 0 ''Revalidated 0 paths: ''), ())"
  by (simp add: rv_env_def request_of_def handler_revalidate_def secret_rejected_def env_truthy_def
      show_nat_small digit_def)

text \<open>
  C10 as it is written fails for a parameter that is supplied with an empty value
  (\<open>?path=\<close>): \<open>if (pathToRevalidate)\<close> is false for the empty string, and the answer is 400.
\<close>

theorem empty_parameter_counterexample:
  "\<not> secret_rejected (rv_env None True) (request_of ''GET'' [(''path'', One [])] [] Undefined) \<and>
   query (request_of ''GET'' [(''path'', One [])] [] Undefined) ''path'' \<noteq> Absent \<and>
   handler_revalidate (rv_env None True) (request_of ''GET'' [(''path'', One [])] [] Undefined) ()
     = (Response 400 (RvError ''Missing tag or path parameter''), ())"
  by (simp add: rv_env_def request_of_def handler_revalidate_def secret_rejected_def env_truthy_def)

section \<open>Properties of /api/webhook/magento\<close>

text \<open>
  C5: for every X, a POST with the body \<open>{entity: "product", action: "update", data: {sku: X}}\<close>
  produces no path, fetches nothing and is answered 400 with the error
  \<open>Unknown entity type or missing path data\<close>.
\<close>

theorem product_without_url_key:
  "webhook_paths (JStr ''product'') (JObj [(''sku'', JStr X)]) = Some [] \<and>
   handler_webhook env
     \<lparr>http_method = ''POST'', query = q, headers = h,
      body = JObj [(''entity'', JStr ''product''), (''action'', JStr ''update''),
                   (''data'', JObj [(''sku'', JStr X)])]\<rparr> w
     = (Response 400 (WhError ''Unknown entity type or missing path data''), [], w)"
  by (simp add: handler_webhook_def webhook_paths_def product_step_def)

text \<open>
  C6: a POST with the body \<open>{entity: "page", action: "update", data: {identifier: "about-us"}}\<close>
  is translated to exactly the path \<open>/about-us\<close>, and when the call for that path succeeds the
  answer is 200 with \<open>{success: true, message: "Revalidated 1 paths"}\<close>.
\<close>

theorem page_update_revalidated:
  assumes "wh_fetch env (wh_baseUrl env) ''/about-us'' w = (RespOk, w')"
  shows
    "webhook_paths (JStr ''page'') (JObj [(''identifier'', JStr ''about-us'')])
       = Some [''/about-us''] \<and>
     handler_webhook env
       \<lparr>http_method = ''POST'', query = q, headers = h,
        body = JObj [(''entity'', JStr ''page''), (''action'', JStr ''update''),
                     (''data'', JObj [(''identifier'', JStr ''about-us'')])]\<rparr> w
       = (Response 200 (WhSuccess True ''Revalidated 1 paths''), [''/about-us''], w')"
  using assms
  by (simp add: handler_webhook_def webhook_paths_def page_step_def show_nat_small digit_def)

theorem page_update_revalidated_witness:
  "handler_webhook (wh_env RespOk)
     (request_of ''POST'' [] []
        (JObj [(''entity'', JStr ''page''), (''action'', JStr ''update''),
               (''data'', JObj [(''identifier'', JStr ''about-us'')])])) ()
     = (Response 200 (WhSuccess True ''Revalidated 1 paths''), [''/about-us''], ())"
  using page_update_revalidated [of "wh_env RespOk" "()" "()" "\<lambda>k. Absent" "\<lambda>k. Absent"]
  by (simp add: request_of_def wh_env_def)

text \<open>Every translated path begins with a slash.\<close>

lemma startsWith_slash [simp]: "startsWith (CHR ''/'' # s) ''/''"
  by (simp add: startsWith_def)

lemma tag_paths_slash: "p \<in> set (tag_paths t) \<Longrightarrow> startsWith p ''/''"
  by (auto simp: tag_paths_def split: if_splits)

lemma product_step_slash:
  assumes "product_step data paths = Some ps" and "\<forall>p\<in>set paths. startsWith p ''/''"
  shows "\<forall>p\<in>set ps. startsWith p ''/''"
  using assms by (auto simp: product_step_def split: if_splits bind_splits)

lemma category_step_slash:
  assumes "category_step data paths = Some ps" and "\<forall>p\<in>set paths. startsWith p ''/''"
  shows "\<forall>p\<in>set ps. startsWith p ''/''"
  using assms
  by (auto simp: category_step_def split: if_splits bind_splits jsval.splits)

lemma page_step_slash:
  assumes "page_step data paths = Some ps" and "\<forall>p\<in>set paths. startsWith p ''/''"
  shows "\<forall>p\<in>set ps. startsWith p ''/''"
  using assms by (auto simp: page_step_def split: if_splits bind_splits)

lemma webhook_paths_slash:
  assumes "webhook_paths entity data = Some paths"
  shows "\<forall>p\<in>set paths. startsWith p ''/''"
proof -
  from assms obtain p1 p2 where
    s1: "(if entity = JStr ''product'' then product_step data [] else Some []) = Some p1" and
    s2: "(if entity = JStr ''category'' then category_step data p1 else Some p1) = Some p2" and
    s3: "(if entity = JStr ''page'' \<or> entity = JStr ''cms_page'' then page_step data p2
          else Some p2) = Some paths"
    by (auto simp: webhook_paths_def split: bind_splits)
  from s1 have "\<forall>p\<in>set p1. startsWith p ''/''"
    using product_step_slash [of data "[]" p1] by (auto split: if_splits)
  with s2 have "\<forall>p\<in>set p2. startsWith p ''/''"
    using category_step_slash [of data p1 p2] by (auto split: if_splits)
  with s3 show ?thesis
    using page_step_slash [of data p2 paths] by (auto split: if_splits)
qed

text \<open>
  C9: every path the translator produces, from the tags of /api/revalidate or from the entity
  and data of a webhook, begins with \<open>/\<close>.
\<close>

theorem translated_paths_begin_with_slash:
  "(\<forall>p\<in>set (tags_to_paths tags). startsWith p ''/'') \<and>
   (webhook_paths entity data = Some paths \<longrightarrow> (\<forall>p\<in>set paths. startsWith p ''/''))"
  using tag_paths_slash webhook_paths_slash [of entity data paths]
  by (auto simp: tags_to_paths_def)

theorem translated_paths_begin_with_slash_witness:
  "tags_to_paths [''product:a'', ''category:shoes'', ''layout''] = [''/p/a'', ''/shoes''] \<and>
   startsWith ''/p/a'' ''/'' \<and> startsWith ''/shoes'' ''/'' \<and>
   webhook_paths (JStr ''category'') (JObj [(''url_path'', JStr ''men/shoes'')]) = Some [''/men/shoes''] \<and>
   startsWith ''/men/shoes'' ''/''"
  using translated_paths_begin_with_slash [of "[''product:a'', ''category:shoes'', ''layout'']"
      "JStr ''category''" "JObj [(''url_path'', JStr ''men/shoes'')]" "[''/men/shoes'']"]
  by (simp add: tags_to_paths_def tag_paths_def startsWith_def webhook_paths_def category_step_def)

section \<open>Unsupported methods\<close>

lemma handler_revalidate_status:
  "status (fst (handler_revalidate env req w)) \<in> {200, 400, 401}"
  by (auto simp: handler_revalidate_def Let_def split: prod.splits)

lemma secret_rejected_any_method:
  "secret_rejected env (req\<lparr>http_method := m\<rparr>) = secret_rejected env req"
  by (simp add: secret_rejected_def)

lemma handler_revalidate_any_method:
  "handler_revalidate env (req\<lparr>http_method := m\<rparr>) w = handler_revalidate env req w"
  by (simp add: handler_revalidate_def secret_rejected_any_method)

text \<open>
  C8, amended: /api/revalidate-all answers 405 to every method other than GET and POST, and
  /api/webhook/magento to every method other than POST; /api/revalidate never reads
  \<open>req.method\<close>: its answer, and the state its calls leave the outside in, are the same
  whatever the method of the request is changed to, and it never answers 405.
\<close>

theorem method_not_allowed:
  "(http_method req \<noteq> ''GET'' \<and> http_method req \<noteq> ''POST'' \<longrightarrow>
      handler_revalidate_all ra req w = (Response 405 (RaError ''Method not allowed''), [], w)) \<and>
   (http_method req \<noteq> ''POST'' \<longrightarrow>
      handler_webhook wh req w' = (Response 405 (WhError ''Method not allowed''), [], w')) \<and>
   handler_revalidate rv (req\<lparr>http_method := m\<rparr>) w'' = handler_revalidate rv req w'' \<and>
   status (fst (handler_revalidate rv req w'')) \<noteq> 405"
  using handler_revalidate_status [of rv req w''] handler_revalidate_any_method [where env = rv and req = req and m = m and w = w'']
  by (auto simp: handler_revalidate_all_def handler_webhook_def)

theorem method_not_allowed_witness:
  "handler_revalidate_all (stub_env only_tr (fails_on ''/c''))
       (request_of ''DELETE'' [] [] Undefined) 0
     = (Response 405 (RaError ''Method not allowed''), [], 0) \<and>
   handler_webhook (wh_env RespOk) (request_of ''DELETE'' [] [] Undefined) ()
     = (Response 405 (WhError ''Method not allowed''), [], ()) \<and>
   handler_revalidate (rv_env None True)
       ((request_of ''DELETE'' [] [] Undefined)\<lparr>http_method := ''GET''\<rparr>) ()
     = handler_revalidate (rv_env None True) (request_of ''DELETE'' [] [] Undefined) () \<and>
   status (fst (handler_revalidate (rv_env None True) (request_of ''DELETE'' [] [] Undefined) ())) \<noteq> 405"
  using method_not_allowed [of "request_of ''DELETE'' [] [] Undefined"
      "stub_env only_tr (fails_on ''/c'')" 0
      "wh_env RespOk" "()" "rv_env None True" "''GET''" "()"]
  by (simp add: request_of_def)

text \<open>
  C8 as it is written fails on /api/revalidate, for which GET and POST are the methods
  described: a DELETE request with a path is served like any other.
\<close>

theorem revalidate_any_method_counterexample:
  "http_method (request_of ''DELETE'' [(''path'', One ''/x'')] [] Undefined) \<noteq> ''GET'' \<and>
   http_method (request_of ''DELETE'' [(''path'', One ''/x'')] [] Undefined) \<noteq> ''POST'' \<and>
   handler_revalidate (rv_env None True) (request_of ''DELETE'' [(''path'', One ''/x'')] [] Undefined) ()
     = (Response 200 (Revalidated True 0 ''Revalidated 1 paths: /x''), ())"
  by (simp add: rv_env_def request_of_def handler_revalidate_def secret_rejected_def env_truthy_def
      show_nat_small digit_def)

section \<open>Properties of /api/revalidate-all\<close>

lemma dispatched_append [simp]: "dispatched (xs @ ys) = dispatched xs @ dispatched ys"
  by (induction xs rule: dispatched.induct) simp_all

lemma settled_append [simp]: "settled (xs @ ys) = settled xs @ settled ys"
  by (induction xs rule: settled.induct) simp_all

lemma dispatched_map_Dispatched [simp]: "dispatched (map Dispatched ps) = ps"
  by (induction ps) simp_all

lemma settled_map_Dispatched [simp]: "settled (map Dispatched ps) = []"
  by (induction ps) simp_all

lemma dispatched_map_settled [simp]: "dispatched (map settled_event ss) = []"
  by (induction ss) (simp_all add: settled_event_def)

lemma settled_map_settled [simp]: "settled (map settled_event ss) = ss"
  by (induction ss) (simp_all add: settled_event_def)

lemma count_AllSettled_map_Dispatched [simp]: "count_list (map Dispatched ps) AllSettled = 0"
  by (induction ps) simp_all

lemma count_AllSettled_map_settled [simp]: "count_list (map settled_event ss) AllSettled = 0"
  by (induction ss) (simp_all add: settled_event_def)

lemma new_Set_set: "set (new_Set seen xs) = set seen \<union> set xs"
  by (induction xs arbitrary: seen) auto

lemma new_Set_distinct: "distinct seen \<Longrightarrow> distinct (new_Set seen xs)"
  by (induction xs arbitrary: seen) auto

lemma distinct_count_le_1: "distinct xs \<Longrightarrow> count_list xs x \<le> 1"
  by (induction xs) auto

text \<open>What one settlement does to the counters, and what awaiting a whole batch does.\<close>

lemma settle_effect:
  "revalidatedCount (settle p r st) = revalidatedCount st + ok_count [(p, r)] \<and>
   errors (settle p r st) = errors st @ error_message (p, r)"
  by (cases r) (simp_all add: ok_count_def)

lemma ok_count_append [simp]: "ok_count (xs @ ys) = ok_count xs + ok_count ys"
  by (simp add: ok_count_def)

lemma settle_all_spec:
  "\<exists>ss st'. settle_all env pending st = (map settled_event ss, st') \<and>
      mset (map fst ss) = mset pending \<and>
      revalidatedCount st' = revalidatedCount st + ok_count ss \<and>
      errors st' = errors st @ concat (map error_message ss)"
proof (induction pending arbitrary: st rule: length_induct)
  case (1 pending)
  show ?case
  proof (cases "pending = []")
    case True
    then show ?thesis
      by (simp add: settle_all.simps ok_count_def)
  next
    case False
    obtain i r w' where next_is: "settle_next env pending (world st) = ((i, r), w')"
      by (metis surj_pair)
    define k where "k = i mod length pending"
    define rest where "rest = take k pending @ drop (Suc k) pending"
    define st1 where "st1 = settle (pending ! k) r (st\<lparr>world := w'\<rparr>)"
    from False have k_less: "k < length pending"
      by (simp add: k_def)
    then have "length rest < length pending"
      by (simp add: rest_def)
    with 1 obtain ss st' where
      rec: "settle_all env rest st1 = (map settled_event ss, st')" and
      perm: "mset (map fst ss) = mset rest" and
      cnt: "revalidatedCount st' = revalidatedCount st1 + ok_count ss" and
      errs: "errors st' = errors st1 @ concat (map error_message ss)"
      by blast
    have unfold: "settle_all env pending st = (map settled_event ((pending ! k, r) # ss), st')"
      using False next_is rec
      by (subst settle_all.simps) (simp add: k_def rest_def st1_def settled_event_def)
    have "mset pending = add_mset (pending ! k) (mset rest)"
      using k_less unfolding rest_def
      by (metis append_take_drop_id Cons_nth_drop_Suc mset.simps(2) mset_append union_mset_add_mset_right)
    then have perm': "mset (map fst ((pending ! k, r) # ss)) = mset pending"
      using perm by simp
    have cnt': "revalidatedCount st' = revalidatedCount st + ok_count ((pending ! k, r) # ss)"
      using cnt settle_effect [of "pending ! k" r "st\<lparr>world := w'\<rparr>"]
      by (simp add: st1_def ok_count_def)
    have errs': "errors st' = errors st @ concat (map error_message ((pending ! k, r) # ss))"
      using errs settle_effect [of "pending ! k" r "st\<lparr>world := w'\<rparr>"]
      by (simp add: st1_def)
    from unfold perm' cnt' errs' show ?thesis
      by blast
  qed
qed

lemma run_wave_spec:
  "\<exists>ss st'. run_wave env batch st = (map Dispatched batch @ map settled_event ss @ [AllSettled], st') \<and>
      mset (map fst ss) = mset batch \<and>
      revalidatedCount st' = revalidatedCount st + ok_count ss \<and>
      errors st' = errors st @ concat (map error_message ss)"
  using settle_all_spec [of env batch st]
  by (auto simp: run_wave_def)

lemma slice_drop: "slice ps i (i + n) @ drop (i + n) ps = drop i ps"
  by (simp add: slice_def add.commute [of i n] flip: drop_drop)

lemma ceil_div_step: "0 < (m::nat) \<Longrightarrow> (m + 9) div 10 = Suc ((m - 10 + 9) div 10)"
proof (cases "m < 10")
  case True
  assume "0 < m"
  with True have "(m + 9) div 10 = 1" by simp
  moreover from True have "(m - 10 + 9) div 10 = 0" by simp
  ultimately show ?thesis by simp
next
  case False
  then have "m + 9 = (m - 10 + 9) + 10" by simp
  then have "(m + 9) div 10 = ((m - 10 + 9) + 10) div 10" by simp
  then show ?thesis by simp
qed

text \<open>The loop from \<open>i\<close> on: what is dispatched, what settles, the counters, the waves.\<close>

lemma revalidate_batches_spec:
  "\<exists>evs st'. revalidate_batches env ps i st = (evs, st') \<and>
      dispatched evs = drop i ps \<and>
      mset (map fst (settled evs)) = mset (drop i ps) \<and>
      revalidatedCount st' = revalidatedCount st + ok_count (settled evs) \<and>
      errors st' = errors st @ concat (map error_message (settled evs)) \<and>
      count_list evs AllSettled = (length ps - i + 9) div 10"
proof (induction env ps i st rule: revalidate_batches.induct)
  case (1 env ps i st)
  show ?case
  proof (cases "i < length ps")
    case False
    then show ?thesis
      by (simp add: revalidate_batches.simps ok_count_def)
  next
    case True
    obtain ss st1 where
      wave: "run_wave env (slice ps i (i + batchSize)) st
               = (map Dispatched (slice ps i (i + batchSize)) @ map settled_event ss @ [AllSettled], st1)" and
      perm: "mset (map fst ss) = mset (slice ps i (i + batchSize))" and
      cnt: "revalidatedCount st1 = revalidatedCount st + ok_count ss" and
      errs: "errors st1 = errors st @ concat (map error_message ss)"
      using run_wave_spec [of env "slice ps i (i + batchSize)" st] by blast
    from 1 [OF True wave [symmetric]] obtain evs' st2 where
      rec: "revalidate_batches env ps (i + batchSize) st1 = (evs', st2)" and
      disp: "dispatched evs' = drop (i + batchSize) ps" and
      perm2: "mset (map fst (settled evs')) = mset (drop (i + batchSize) ps)" and
      cnt2: "revalidatedCount st2 = revalidatedCount st1 + ok_count (settled evs')" and
      errs2: "errors st2 = errors st1 @ concat (map error_message (settled evs'))" and
      waves2: "count_list evs' AllSettled = (length ps - (i + batchSize) + 9) div 10"
      by blast
    let ?wave = "map Dispatched (slice ps i (i + batchSize)) @ map settled_event ss @ [AllSettled]"
    have unfold: "revalidate_batches env ps i st = (?wave @ evs', st2)"
      using True wave rec by (subst revalidate_batches.simps) simp
    have d: "dispatched (?wave @ evs') = drop i ps"
      using disp slice_drop [of ps i batchSize] by simp
    have s: "settled (?wave @ evs') = ss @ settled evs'"
      by simp
    have "mset (slice ps i (i + batchSize) @ drop (i + batchSize) ps) = mset (drop i ps)"
      by (simp only: slice_drop)
    then have "mset (slice ps i (i + batchSize)) + mset (drop (i + batchSize) ps) = mset (drop i ps)"
      by simp
    then have p: "mset (map fst (settled (?wave @ evs'))) = mset (drop i ps)"
      using perm perm2 by (simp add: s)
    have c: "revalidatedCount st2 = revalidatedCount st + ok_count (settled (?wave @ evs'))"
      using cnt cnt2 by (simp add: s)
    have e: "errors st2 = errors st @ concat (map error_message (settled (?wave @ evs')))"
      using errs errs2 by (simp add: s)
    have "(length ps - i + 9) div 10 = Suc ((length ps - (i + 10) + 9) div 10)"
      using True ceil_div_step [of "length ps - i"] by (simp add: diff_diff_left [symmetric] del: diff_diff_left)
    moreover have "count_list (?wave @ evs') AllSettled = Suc (count_list evs' AllSettled)"
      by simp
    ultimately have n: "count_list (?wave @ evs') AllSettled = (length ps - i + 9) div 10"
      using waves2 by (simp only: batchSize_def)
    show ?thesis
      using unfold d p c e n by (intro exI [of _ "?wave @ evs'"] exI [of _ st2] conjI)
  qed
qed








lemma orchestrate_spec:
  "\<exists>evs st'.
      revalidate_batches env (new_Set [] allPaths) 0
        \<lparr>world = w, revalidatedCount = 0, errors = errors0\<rparr> = (evs, st') \<and>
      orchestrate env allPaths errors0 w =
        (Response 200
           (RaSuccess True
              (''Revalidated '' @ show_nat (revalidatedCount st') @ '' out of ''
                 @ show_nat (length (new_Set [] allPaths)) @ '' paths'')
              (length (filter (\<lambda>p. startsWith p ''/p/'') (new_Set [] allPaths)))
              (length (filter (\<lambda>p. \<not> startsWith p ''/p/'' \<and> p \<noteq> ''/'') (new_Set [] allPaths)))
              (revalidatedCount st')
              (if length (errors st') > 0 then Some (take 10 (errors st')) else None)),
         evs, world st')"
  by (cases "revalidate_batches env (new_Set [] allPaths) 0
        \<lparr>world = w, revalidatedCount = 0, errors = errors0\<rparr>")
    (simp add: orchestrate_def Let_def)

lemma orchestrate_events:
  "fst (snd (orchestrate env allPaths errors0 w))
     = fst (revalidate_batches env (new_Set [] allPaths) 0
         \<lparr>world = w, revalidatedCount = 0, errors = errors0\<rparr>)"
  using orchestrate_spec [of env allPaths w errors0] by auto

lemma orchestrate_dispatched:
  "dispatched (fst (snd (orchestrate env allPaths errors0 w))) = new_Set [] allPaths"
  using revalidate_batches_spec [of env "new_Set [] allPaths" 0
      "\<lparr>world = w, revalidatedCount = 0, errors = errors0\<rparr>"]
  by (auto simp: orchestrate_events)

text \<open>
  C1: whatever list of paths the orchestrator is given, and however often a path occurs in
  it, every path is dispatched at most once; the paths dispatched are those of the list.
\<close>

theorem each_path_dispatched_once:
  "count_list (dispatched (fst (snd (orchestrate env allPaths errors0 w)))) p \<le> 1 \<and>
   set (dispatched (fst (snd (orchestrate env allPaths errors0 w)))) = set allPaths"
  using distinct_count_le_1 [of "new_Set [] allPaths" p] new_Set_distinct [of "[]" allPaths]
  by (simp add: orchestrate_dispatched new_Set_set)

theorem each_path_dispatched_once_witness:
  "dispatched (fst (snd (orchestrate (stub_env only_tr (fails_on ''/c'')) eleven_and_a_duplicate [] 0)))
     = [''/a'', ''/b'', ''/c'', ''/d'', ''/e'', ''/f'', ''/g'', ''/h'', ''/i'', ''/j'', ''/k''] \<and>
   count_list (dispatched (fst (snd (orchestrate (stub_env only_tr (fails_on ''/c''))
      eleven_and_a_duplicate [] 0)))) ''/a'' \<le> 1"
  using each_path_dispatched_once [of "stub_env only_tr (fails_on ''/c'')" eleven_and_a_duplicate "[]" 0 "''/a''"]
  by (simp add: orchestrate_def eleven_and_a_duplicate_def stub_env_def fails_on_def Let_def
      revalidate_batches.simps run_wave_def settle_all.simps slice_def batchSize_def)

text \<open>
  Eleven paths, one of them given twice, with a network in which the call issued last settles
  first and the call for \<open>/c\<close> fails: two waves, ten calls and one.
\<close>

lemma two_waves_example:
  "orchestrate (stub_env only_tr (fails_on ''/c'')) eleven_and_a_duplicate [] 0 =
     (Response 200 (RaSuccess True ''Revalidated 10 out of 11 paths'' 0 11 10
        (Some [''Failed to revalidate /c: boom''])),
      [Dispatched ''/a'', Dispatched ''/b'', Dispatched ''/c'', Dispatched ''/d'', Dispatched ''/e'',
       Dispatched ''/f'', Dispatched ''/g'', Dispatched ''/h'', Dispatched ''/i'', Dispatched ''/j'',
       Settled ''/j'' RespOk, Settled ''/i'' RespOk, Settled ''/h'' RespOk, Settled ''/g'' RespOk,
       Settled ''/f'' RespOk, Settled ''/e'' RespOk, Settled ''/d'' RespOk,
       Settled ''/c'' (RespNotOk ''boom''), Settled ''/b'' RespOk, Settled ''/a'' RespOk,
       AllSettled,
       Dispatched ''/k'', Settled ''/k'' RespOk, AllSettled],
      11)"
  by (simp add: orchestrate_def eleven_and_a_duplicate_def stub_env_def fails_on_def Let_def
      revalidate_batches.simps run_wave_def settle_all.simps slice_def batchSize_def
      show_nat.simps digit_def startsWith_def)



text \<open>Exactly one call fails.\<close>

lemma error_message_failures:
  "concat (map error_message ss) = concat (map error_message (filter (\<lambda>(p, r). r \<noteq> RespOk) ss))"
  by (induction ss) auto

lemma ok_count_failures:
  "ok_count ss + length (filter (\<lambda>(p, r). r \<noteq> RespOk) ss) = length ss"
  by (induction ss) (auto simp: ok_count_def)

lemma error_message_nonempty: "r \<noteq> RespOk \<Longrightarrow> error_message (p, r) \<noteq> []"
  by (cases r) simp_all

lemma orchestrate_one_failure:
  assumes "orchestrate env allPaths errors0 w = (resp, evs, w')"
    and "failures evs = [(p, r)]"
  shows "\<exists>msg pc cc shown.
      resp = Response 200 (RaSuccess True msg pc cc (length (new_Set [] allPaths) - 1) (Some shown)) \<and>
      ok_count (settled evs) = length (new_Set [] allPaths) - 1 \<and>
      shown = take 10 (errors0 @ error_message (p, r)) \<and>
      error_message (p, r) \<noteq> []"
proof -
  let ?ps = "new_Set [] allPaths"
  let ?st0 = "\<lparr>world = w, revalidatedCount = 0, errors = errors0\<rparr>"
  obtain st' where
    run: "revalidate_batches env ?ps 0 ?st0 = (evs, st')" and
    resp: "resp = Response 200
           (RaSuccess True
              (''Revalidated '' @ show_nat (revalidatedCount st') @ '' out of ''
                 @ show_nat (length ?ps) @ '' paths'')
              (length (filter (\<lambda>p. startsWith p ''/p/'') ?ps))
              (length (filter (\<lambda>p. \<not> startsWith p ''/p/'' \<and> p \<noteq> ''/'') ?ps))
              (revalidatedCount st')
              (if length (errors st') > 0 then Some (take 10 (errors st')) else None))"
    using orchestrate_spec [of env allPaths w errors0] assms(1) by auto
  from revalidate_batches_spec [of env ?ps 0 ?st0] run have
    perm: "mset (map fst (settled evs)) = mset ?ps" and
    cnt: "revalidatedCount st' = ok_count (settled evs)" and
    errs: "errors st' = errors0 @ concat (map error_message (settled evs))"
    by auto
  from perm have "length (settled evs) = length ?ps"
    by (metis length_map size_mset)
  with ok_count_failures [of "settled evs"] assms(2) have ok: "ok_count (settled evs) = length ?ps - 1"
    by (simp add: failures_def)
  from assms(2) have errs': "errors st' = errors0 @ error_message (p, r)"
    using error_message_failures [of "settled evs"] by (simp add: errs failures_def)
  from assms(2) have "(p, r) \<in> set (filter (\<lambda>(p, r). r \<noteq> RespOk) (settled evs))"
    by (simp add: failures_def)
  then have nonempty: "error_message (p, r) \<noteq> []"
    by (simp add: error_message_nonempty)
  with resp cnt ok errs' show ?thesis
    by simp
qed

text \<open>
  C7, amended: when exactly one path fails to revalidate and all others succeed, the answer
  is 200 with \<open>success: true\<close>, the count of the paths that succeeded, and as \<open>errors\<close> the first
  ten of the messages recorded: those of the locales whose paths could not be fetched, then
  the message of the failing path. That message is therefore among them when fewer than ten
  locales failed.
\<close>

theorem partial_failure_reported:
  assumes "request_locales (body req) = Some locales"
    and "collect_paths env locales [] [] w = (Some (allPaths, errors0), w1)"
    and "handler_revalidate_all env req w = (resp, evs, w')"
    and "failures evs = [(p, r)]"
  shows "\<exists>msg pc cc shown.
      resp = Response 200 (RaSuccess True msg pc cc (ok_count (settled evs)) (Some shown)) \<and>
      ok_count (settled evs) = length (new_Set [] allPaths) - 1 \<and>
      shown = take 10 (errors0 @ error_message (p, r)) \<and>
      length shown \<le> 10 \<and>
      error_message (p, r) \<noteq> [] \<and>
      (length errors0 < 10 \<longrightarrow> set (error_message (p, r)) \<subseteq> set shown)"
proof -
  have allowed: "\<not> (http_method req \<noteq> ''GET'' \<and> http_method req \<noteq> ''POST'')"
  proof
    assume "http_method req \<noteq> ''GET'' \<and> http_method req \<noteq> ''POST''"
    with assms(3) have "evs = []"
      by (simp add: handler_revalidate_all_def)
    with assms(4) show False
      by (simp add: failures_def)
  qed
  with assms(1,2,3) have run: "orchestrate env allPaths errors0 w1 = (resp, evs, w')"
    by (simp add: handler_revalidate_all_def)
  from orchestrate_one_failure [OF run assms(4)] obtain msg pc cc shown where
    resp: "resp = Response 200 (RaSuccess True msg pc cc (length (new_Set [] allPaths) - 1) (Some shown))" and
    ok: "ok_count (settled evs) = length (new_Set [] allPaths) - 1" and
    shown: "shown = take 10 (errors0 @ error_message (p, r))" and
    nonempty: "error_message (p, r) \<noteq> []"
    by blast
  obtain m where m: "error_message (p, r) = [m]"
    using nonempty by (cases r) simp_all
  have "set (error_message (p, r)) \<subseteq> set shown" if "length errors0 < 10"
    using that by (simp add: shown m)
  with resp ok shown nonempty show ?thesis
    by simp
qed

theorem partial_failure_reported_witness:
  "\<exists>msg pc cc.
     fst (handler_revalidate_all (stub_env two_products (fails_on ''/p/b''))
          (request_of ''GET'' [] [] Undefined) 0)
     = Response 200 (RaSuccess True msg pc cc 1 (Some [''Failed to revalidate /p/b: boom'']))"
proof -
  let ?env = "stub_env two_products (fails_on ''/p/b'')"
  let ?req = "request_of ''GET'' [] [] Undefined"
  let ?evs = "[Dispatched ''/p/a'', Dispatched ''/p/b'',
               Settled ''/p/b'' (RespNotOk ''boom''), Settled ''/p/a'' RespOk, AllSettled]"
  let ?resp = "Response 200 (RaSuccess True ''Revalidated 1 out of 2 paths'' 2 0 1
                 (Some [''Failed to revalidate /p/b: boom'']))"
  have locales: "request_locales (body ?req) = Some [JStr ''tr'']"
    by (simp add: request_locales_def request_of_def)
  have collected: "collect_paths ?env [JStr ''tr''] [] [] 0 = (Some ([''/p/a'', ''/p/b'', ''/p/a''], []), 0)"
    by (simp add: stub_env_def two_products_def fetch_locale_def ensure_slash_def startsWith_def)
  have batches: "orchestrate ?env [''/p/a'', ''/p/b'', ''/p/a''] [] 0 = (?resp, ?evs, 2)"
    by (simp add: orchestrate_def stub_env_def fails_on_def Let_def
        revalidate_batches.simps run_wave_def settle_all.simps slice_def batchSize_def
        show_nat.simps digit_def startsWith_def)
  have "http_method ?req = ''GET''"
    by (simp add: request_of_def)
  then have run: "handler_revalidate_all ?env ?req 0 = (?resp, ?evs, 2)"
    by (simp add: handler_revalidate_all_def locales collected batches del: collect_paths.simps)
  have failed: "failures ?evs = [(''/p/b'', RespNotOk ''boom'')]"
    by (simp add: failures_def)
  from partial_failure_reported [OF locales collected run failed] obtain msg pc cc shown where
    resp: "?resp = Response 200 (RaSuccess True msg pc cc (ok_count (settled ?evs)) (Some shown))" and
    shown: "shown = take 10 ([] @ error_message (''/p/b'', RespNotOk ''boom''))"
    by blast
  have "ok_count (settled ?evs) = 1"
    by (simp add: ok_count_def)
  moreover have "shown = [''Failed to revalidate /p/b: boom'']"
    by (simp add: shown)
  moreover have "fst (handler_revalidate_all ?env ?req 0) = ?resp"
    by (simp only: run fst_conv)
  ultimately show ?thesis
    using resp by (simp only:) blast
qed

text \<open>
  C7 as it is written fails when ten locales could not be fetched: their ten messages fill
  the \<open>errors\<close> of the answer and the message of the path that failed is cut off.
\<close>

theorem ten_locale_errors_counterexample:
  "failures (fst (snd (handler_revalidate_all (stub_env only_tr (fails_on ''/p/a''))
      (request_of ''POST'' [] [] eleven_locales) 0))) = [(''/p/a'', RespNotOk ''boom'')] \<and>
   error_message (''/p/a'', RespNotOk ''boom'') = [''Failed to revalidate /p/a: boom''] \<and>
   fst (handler_revalidate_all (stub_env only_tr (fails_on ''/p/a''))
      (request_of ''POST'' [] [] eleven_locales) 0)
    = Response 200 (RaSuccess True ''Revalidated 1 out of 2 paths'' 2 0 1
        (Some [''Error fetching paths for locale l0: no such store'',
               ''Error fetching paths for locale l1: no such store'',
               ''Error fetching paths for locale l2: no such store'',
               ''Error fetching paths for locale l3: no such store'',
               ''Error fetching paths for locale l4: no such store'',
               ''Error fetching paths for locale l5: no such store'',
               ''Error fetching paths for locale l6: no such store'',
               ''Error fetching paths for locale l7: no such store'',
               ''Error fetching paths for locale l8: no such store'',
               ''Error fetching paths for locale l9: no such store'']))"
  by (simp add: handler_revalidate_all_def request_of_def eleven_locales_def request_locales_def
      stub_env_def only_tr_def fails_on_def fetch_locale_def ensure_slash_def startsWith_def
      orchestrate_def Let_def revalidate_batches.simps run_wave_def settle_all.simps slice_def
      batchSize_def show_nat.simps digit_def failures_def)

end
